theory Spec2Isabelle
  imports Main "HOL-Library.AList"
begin

section \<open>The chat front end of script.js: session state and request handlers\<close>

text \<open>
  The script keeps two globals, \<open>allSessions\<close> (an object from session id to session)
  and \<open>currentSessionId\<close>, mirrors them into \<open>localStorage\<close>, and talks to two
  endpoints. The model is a state record that every handler takes and returns.
  A JavaScript exception does not undo the assignments made before it, so a handler
  returns the state it reached together with the exception, if any.

  Outside the model: the DOM (the rendered chat history, the session list, the progress
  bar, the theme), of which only the exception raised by \<open>addMessageToUI\<close> on a text
  that is not a string is kept, so that the notifications of the state are the
  arguments handed to \<open>showNotification\<close>; characters above code unit 255. Writes to
  \<open>localStorage\<close> are taken to succeed, and the built-in objects are taken as the
  platform ships them.
\<close>

subsection \<open>JavaScript values and exceptions\<close>

text \<open>
  The values that \<open>JSON.parse\<close> gives, and \<open>undefined\<close>. A number is held by the
  numeral that JavaScript prints for it, which is \<open>0\<close> for both zeros. An object is
  the list of its own properties.
\<close>

datatype jsval =
    Undefined
  | Null
  | Bool bool
  | Num string
  | Str string
  | Arr "jsval list"
  | Obj "(string \<times> jsval) list"

datatype js_error = Error string | SyntaxError string | TypeError string

text \<open>The \<open>message\<close> property of an exception.\<close>

fun message_of :: "js_error \<Rightarrow> string" where
  "message_of (Error m) = m"
| "message_of (SyntaxError m) = m"
| "message_of (TypeError m) = m"

text \<open>The operand test of \<open>||\<close> and \<open>!\<close>.\<close>

fun truthy :: "jsval \<Rightarrow> bool" where
  "truthy Undefined = False"
| "truthy Null = False"
| "truthy (Bool b) = b"
| "truthy (Num n) = (n \<noteq> ''0'')"
| "truthy (Str s) = (s \<noteq> [])"
| "truthy (Arr xs) = True"
| "truthy (Obj fs) = True"

fun join_comma :: "string list \<Rightarrow> string" where
  "join_comma [] = []"
| "join_comma [s] = s"
| "join_comma (s # t # ss) = s @ '','' @ join_comma (t # ss)"

text \<open>
  The string conversion of template literals and of \<open>new Error(v)\<close>. An object is
  converted by its \<open>toString\<close> method, then by \<open>valueOf\<close>. A parsed object inherits
  both from \<open>Object.prototype\<close>, and the first gives \<open>[object Object]\<close>; but an own
  property \<open>toString\<close> hides the inherited method and is no function, \<open>valueOf\<close>
  gives no primitive value either way, and the conversion raises. An array is converted
  by \<open>join\<close>, which converts its elements from left to right, \<open>undefined\<close> and
  \<open>null\<close> to the empty string.
\<close>

definition to_primitive_error :: js_error where
  "to_primitive_error = TypeError ''Cannot convert object to primitive value''"

fun ToString :: "jsval \<Rightarrow> js_error + string"
  and join_elements :: "jsval list \<Rightarrow> js_error + string list" where
  "ToString Undefined = Inr ''undefined''"
| "ToString Null = Inr ''null''"
| "ToString (Bool b) = Inr (if b then ''true'' else ''false'')"
| "ToString (Num n) = Inr n"
| "ToString (Str s) = Inr s"
| "ToString (Arr xs) =
     (case join_elements xs of Inl e \<Rightarrow> Inl e | Inr ss \<Rightarrow> Inr (join_comma ss))"
| "ToString (Obj fs) =
     (if map_of fs ''toString'' = None then Inr ''[object Object]'' else Inl to_primitive_error)"
| "join_elements [] = Inr []"
| "join_elements (x # xs) =
     (case (if x = Undefined \<or> x = Null then Inr [] else ToString x) of
        Inl e \<Rightarrow> Inl e
      | Inr s \<Rightarrow> (case join_elements xs of Inl e \<Rightarrow> Inl e | Inr ss \<Rightarrow> Inr (s # ss)))"

text \<open>
  Reading the property \<open>name\<close> of a value, for the names the script reads off a parsed
  body (\<open>detail\<close>, \<open>answer\<close>, \<open>message\<close>): \<open>undefined\<close> and \<open>null\<close> have no
  properties, an object gives the field or \<open>undefined\<close>, and numbers, strings,
  booleans and arrays have no property of these names, nor has \<open>Object.prototype\<close>.
  The exception texts are those of V8.
\<close>

fun get_prop :: "jsval \<Rightarrow> string \<Rightarrow> js_error + jsval" where
  "get_prop Undefined name =
     Inl (TypeError (''Cannot read properties of undefined (reading '' @ [CHR 0x27] @ name @ [CHR 0x27] @ '')''))"
| "get_prop Null name =
     Inl (TypeError (''Cannot read properties of null (reading '' @ [CHR 0x27] @ name @ [CHR 0x27] @ '')''))"
| "get_prop (Obj fs) name = (case map_of fs name of None \<Rightarrow> Inr Undefined | Some v \<Rightarrow> Inr v)"
| "get_prop v name = Inr Undefined"

text \<open>What \<open>JSON.parse(xhr.responseText)\<close> and \<open>response.json()\<close> make of a body.\<close>

datatype body = Unparsable string | Parsed jsval

text \<open>
  What \<open>JSON.stringify\<close> keeps of a value: a property whose value is \<open>undefined\<close>
  is left out, and an array element that is \<open>undefined\<close> becomes \<open>null\<close>.
\<close>

fun jsonify :: "jsval \<Rightarrow> jsval"
  and jsonify_elements :: "jsval list \<Rightarrow> jsval list"
  and jsonify_fields :: "(string \<times> jsval) list \<Rightarrow> (string \<times> jsval) list" where
  "jsonify (Arr xs) = Arr (jsonify_elements xs)"
| "jsonify (Obj fs) = Obj (jsonify_fields fs)"
| "jsonify Undefined = Undefined"
| "jsonify Null = Null"
| "jsonify (Bool b) = Bool b"
| "jsonify (Num n) = Num n"
| "jsonify (Str s) = Str s"
| "jsonify_elements [] = []"
| "jsonify_elements (x # xs) = (if x = Undefined then Null else jsonify x) # jsonify_elements xs"
| "jsonify_fields [] = []"
| "jsonify_fields (f # fs) =
     (if snd f = Undefined then jsonify_fields fs else (fst f, jsonify (snd f)) # jsonify_fields fs)"

subsection \<open>Strings: trim, whitespace runs, decimal numerals\<close>

definition is_ws :: "char \<Rightarrow> bool" where
  "is_ws c = (c \<in> set [CHR 0x09, CHR 0x0A, CHR 0x0B, CHR 0x0C, CHR 0x0D, CHR 0x20, CHR 0xA0])"

definition trim :: "string \<Rightarrow> string" where
  "trim s = rev (dropWhile is_ws (rev (dropWhile is_ws s)))"

text \<open>\<open>s.replace(/\s+/g, '-')\<close>: every maximal run of whitespace becomes one hyphen.\<close>

function replace_ws :: "string \<Rightarrow> string" where
  "replace_ws [] = []"
| "replace_ws (c # cs) =
     (if is_ws c then CHR ''-'' # replace_ws (dropWhile is_ws cs) else c # replace_ws cs)"
  by pat_completeness auto
termination
  by (relation "measure length") (auto simp: length_dropWhile_le less_Suc_eq_le)

definition digit_char :: "nat \<Rightarrow> char" where
  "digit_char d = ''0123456789'' ! d"

fun decimal :: "nat \<Rightarrow> string" where
  "decimal n = (if n < 10 then [digit_char n] else decimal (n div 10) @ [digit_char (n mod 10)])"

declare decimal.simps [simp del]

subsection \<open>Data model\<close>

datatype sender = User | Bot

record message =
  sender :: sender
  msg_text :: jsval

record session =
  title :: string
  messages :: "message list"

text \<open>
  \<open>allSessions\<close> is a plain object: its keys are in insertion order, assigning to an
  existing key keeps the key's place, and \<open>Object.keys(allSessions).length\<close> is the
  length of the list.
\<close>

type_synonym sessions = "(string \<times> session) list"

text \<open>
  The text in the \<open>chatSessions\<close> slot of \<open>localStorage\<close>, by what \<open>JSON.parse\<close>
  makes of it: a \<open>SyntaxError\<close> with the given message, or a value. An absent slot is
  \<open>None\<close>; the \<open>currentSessionId\<close> slot holds a bare string.
\<close>

datatype stored = Malformed string | Json jsval

record storage =
  stored_chatSessions :: "stored option"
  stored_currentSessionId :: "string option"

record state =
  allSessions :: sessions
  currentSessionId :: "string option"
  localStorage :: storage
  notifications :: "(jsval \<times> bool) list"

text \<open>A property key is a string: \<open>allSessions[null]\<close> reads the key \<open>"null"\<close>.\<close>

fun key_of :: "string option \<Rightarrow> string" where
  "key_of None = ''null''"
| "key_of (Some k) = k"

definition current_session :: "state \<Rightarrow> session option" where
  "current_session st = map_of (allSessions st) (key_of (currentSessionId st))"

text \<open>
  \<open>allSessions[k]\<close> looks the key up among the own properties and then in
  \<open>Object.prototype\<close>: for a name every object inherits, and that is no key, it gives
  a built-in function (for \<open>__proto__\<close> the prototype itself), which is truthy and has
  no \<open>messages\<close>.
\<close>

definition Object_prototype_names :: "string list" where
  "Object_prototype_names =
     [''constructor'', ''__defineGetter__'', ''__defineSetter__'', ''hasOwnProperty'',
      ''__lookupGetter__'', ''__lookupSetter__'', ''isPrototypeOf'', ''propertyIsEnumerable'',
      ''toString'', ''valueOf'', ''__proto__'', ''toLocaleString'']"

datatype property = Own session | Inherited | Absent

definition get_session :: "sessions \<Rightarrow> string \<Rightarrow> property" where
  "get_session ss k =
     (case map_of ss k of
        Some s \<Rightarrow> Own s
      | None \<Rightarrow> if k \<in> set Object_prototype_names then Inherited else Absent)"

definition active_property :: "state \<Rightarrow> property" where
  "active_property st = get_session (allSessions st) (key_of (currentSessionId st))"

text \<open>Reading the property \<open>name\<close> of \<open>undefined\<close>.\<close>

definition undefined_read :: "string \<Rightarrow> js_error" where
  "undefined_read name =
     TypeError (''Cannot read properties of undefined (reading '' @ [CHR 0x27] @ name @ [CHR 0x27] @ '')'')"

text \<open>
  The value that \<open>JSON.parse\<close> gives back for \<open>JSON.stringify(allSessions)\<close>, and
  the sessions that a value stands for: an object of objects with a string \<open>title\<close>
  and an array \<open>messages\<close> of objects with a \<open>sender\<close> that is \<open>user\<close> or
  \<open>bot\<close> and at most a \<open>text\<close> besides. No other value is a state of the model.
\<close>

definition encode_message :: "message \<Rightarrow> jsval" where
  "encode_message m =
     Obj ((''sender'', Str (if sender m = User then ''user'' else ''bot''))
          # (if msg_text m = Undefined then [] else [(''text'', jsonify (msg_text m))]))"

definition encode_session :: "session \<Rightarrow> jsval" where
  "encode_session s =
     Obj [(''title'', Str (title s)), (''messages'', Arr (map encode_message (messages s)))]"

definition encode_sessions :: "sessions \<Rightarrow> jsval" where
  "encode_sessions ss = Obj (map (\<lambda>e. (fst e, encode_session (snd e))) ss)"

definition decode_sender :: "jsval \<Rightarrow> sender option" where
  "decode_sender v =
     (if v = Str ''user'' then Some User else if v = Str ''bot'' then Some Bot else None)"

definition decode_message :: "jsval \<Rightarrow> message option" where
  "decode_message v =
     (case v of
        Obj fs \<Rightarrow>
          if distinct (map fst fs) \<and> list_all (\<lambda>k. k \<in> set [''sender'', ''text'']) (map fst fs)
          then (case map_of fs ''sender'' of
                  None \<Rightarrow> None
                | Some sv \<Rightarrow>
                    map_option
                      (\<lambda>sd. \<lparr>sender = sd,
                             msg_text = (case map_of fs ''text'' of None \<Rightarrow> Undefined | Some t \<Rightarrow> t)\<rparr>)
                      (decode_sender sv))
          else None
      | _ \<Rightarrow> None)"

definition decode_session :: "jsval \<Rightarrow> session option" where
  "decode_session v =
     (case v of
        Obj fs \<Rightarrow>
          if distinct (map fst fs) \<and> list_all (\<lambda>k. k \<in> set [''title'', ''messages'']) (map fst fs)
          then (case (map_of fs ''title'', map_of fs ''messages'') of
                  (Some (Str t), Some (Arr ms)) \<Rightarrow>
                    map_option (\<lambda>msgs. \<lparr>title = t, messages = msgs\<rparr>) (those (map decode_message ms))
                | _ \<Rightarrow> None)
          else None
      | _ \<Rightarrow> None)"

definition decode_sessions :: "jsval \<Rightarrow> sessions option" where
  "decode_sessions v =
     (case v of
        Obj fs \<Rightarrow>
          if distinct (map fst fs)
          then those (map (\<lambda>f. map_option (Pair (fst f)) (decode_session (snd f))) fs)
          else None
      | _ \<Rightarrow> None)"

definition greeting :: message where
  "greeting = \<lparr>sender = Bot, msg_text = Str ''Hello! Ask me anything about the knowledge base.''\<rparr>"

subsection \<open>Core UI functions\<close>

text \<open>
  \<open>addMessageToUI\<close> (lines 43-76) calls \<open>text.replace\<close> unless the text is the
  string \<open>typing...\<close>: it raises a \<open>TypeError\<close> on every text that is not a string.
\<close>

fun addMessageToUI :: "sender \<Rightarrow> jsval \<Rightarrow> js_error option" where
  "addMessageToUI s (Str t) = None"
| "addMessageToUI s Undefined =
     Some (TypeError (''Cannot read properties of undefined (reading '' @ [CHR 0x27] @ ''replace'' @ [CHR 0x27] @ '')''))"
| "addMessageToUI s Null =
     Some (TypeError (''Cannot read properties of null (reading '' @ [CHR 0x27] @ ''replace'' @ [CHR 0x27] @ '')''))"
| "addMessageToUI s v = Some (TypeError ''text.replace is not a function'')"

definition showNotification :: "jsval \<Rightarrow> bool \<Rightarrow> state \<Rightarrow> state" where
  "showNotification msg isError st = st\<lparr>notifications := notifications st @ [(msg, isError)]\<rparr>"

subsection \<open>Session management\<close>

definition saveSessions :: "state \<Rightarrow> state" where
  "saveSessions st =
     st\<lparr>localStorage :=
          \<lparr>stored_chatSessions = Some (Json (encode_sessions (allSessions st))),
           stored_currentSessionId = Some (key_of (currentSessionId st))\<rparr>\<rparr>"

text \<open>\<open>session.messages.forEach(msg => addMessageToUI(msg.sender, msg.text))\<close>.\<close>

fun forEach_addMessageToUI :: "message list \<Rightarrow> js_error option" where
  "forEach_addMessageToUI [] = None"
| "forEach_addMessageToUI (m # ms) =
     (case addMessageToUI (sender m) (msg_text m) of
        Some e \<Rightarrow> Some e
      | None \<Rightarrow> forEach_addMessageToUI ms)"

text \<open>\<open>loadChatHistory\<close> (lines 132-138).\<close>

definition loadChatHistory :: "state \<Rightarrow> js_error option" where
  "loadChatHistory st =
     (case active_property st of
        Absent \<Rightarrow> None
      | Inherited \<Rightarrow> Some (undefined_read ''forEach'')
      | Own s \<Rightarrow> forEach_addMessageToUI (messages s))"

text \<open>
  \<open>createNewSession\<close> (lines 112-122); \<open>now\<close> is the reading of \<open>Date.now()\<close>.
  The title is computed from the object before the new key is stored.
\<close>

definition createNewSession :: "nat \<Rightarrow> state \<Rightarrow> state \<times> js_error option" where
  "createNewSession now st =
     (let newSessionId = ''session-'' @ decimal now;
          st1 = st\<lparr>currentSessionId := Some newSessionId\<rparr>;
          st2 = st1\<lparr>allSessions :=
                  AList.update newSessionId
                    \<lparr>title = ''Chat '' @ decimal (length (allSessions st1) + 1),
                     messages = [greeting]\<rparr>
                    (allSessions st1)\<rparr>
      in (case loadChatHistory st2 of
            Some e \<Rightarrow> (st2, Some e)
          | None \<Rightarrow> (saveSessions st2, None)))"

text \<open>\<open>switchSession\<close> (lines 124-130).\<close>

definition switchSession :: "string \<Rightarrow> state \<Rightarrow> state \<times> js_error option" where
  "switchSession sessionId st =
     (if Some sessionId = currentSessionId st then (st, None)
      else
        let st1 = st\<lparr>currentSessionId := Some sessionId\<rparr>
        in (case loadChatHistory st1 of
              Some e \<Rightarrow> (st1, Some e)
            | None \<Rightarrow>
                (st1\<lparr>localStorage :=
                      (localStorage st1)\<lparr>stored_currentSessionId := Some sessionId\<rparr>\<rparr>, None)))"

text \<open>
  \<open>loadSessions\<close> (lines 90-96). \<open>loadSessions_read\<close> is its first two statements:
  \<open>getItem\<close> gives \<open>null\<close> for an absent slot, \<open>JSON.parse(null)\<close> is \<open>null\<close>, and
  a falsy value gives way to the empty object. When the slot holds a truthy value that
  stands for no sessions, the globals hold what the state record cannot, and the model
  ends there, on \<open>Outside\<close>.
\<close>

datatype read_result = Parse_error js_error | No_sessions jsval | Read sessions "string option"

definition loadSessions_read :: "storage \<Rightarrow> read_result" where
  "loadSessions_read ls =
     (case stored_chatSessions ls of
        None \<Rightarrow> Read [] (stored_currentSessionId ls)
      | Some (Malformed m) \<Rightarrow> Parse_error (SyntaxError m)
      | Some (Json v) \<Rightarrow>
          if truthy v
          then (case decode_sessions v of
                  None \<Rightarrow> No_sessions v
                | Some ss \<Rightarrow> Read ss (stored_currentSessionId ls))
          else Read [] (stored_currentSessionId ls))"

datatype startup = Done state "js_error option" | Outside jsval

definition loadSessions :: "nat \<Rightarrow> state \<Rightarrow> startup" where
  "loadSessions now st =
     (case loadSessions_read (localStorage st) of
        Parse_error e \<Rightarrow> Done st (Some e)
      | No_sessions v \<Rightarrow> Outside v
      | Read ss sid \<Rightarrow>
          let st1 = st\<lparr>allSessions := ss, currentSessionId := sid\<rparr>
          in if sid = None \<or> sid = Some [] \<or> active_property st1 = Absent
             then (case createNewSession now st1 of (st2, r) \<Rightarrow> Done st2 r)
             else Done st1 None)"

text \<open>\<open>init\<close> (lines 308-318), without the theme and the landing title.\<close>

definition init :: "nat \<Rightarrow> state \<Rightarrow> startup" where
  "init now st =
     (case loadSessions now st of
        Outside v \<Rightarrow> Outside v
      | Done st1 (Some e) \<Rightarrow> Done st1 (Some e)
      | Done st1 None \<Rightarrow> Done st1 (loadChatHistory st1))"

subsection \<open>The chat request\<close>

text \<open>
  \<open>allSessions[k].messages.push(m)\<close>, for a key \<open>k\<close> that is present. Where \<open>k\<close>
  names no property, reading \<open>messages\<close> off \<open>undefined\<close> raises; where it names an
  inherited one, reading \<open>push\<close> off the missing \<open>messages\<close> does.
\<close>

definition push_message :: "string \<Rightarrow> message \<Rightarrow> sessions \<Rightarrow> sessions" where
  "push_message k m ss = AList.map_entry k (\<lambda>s. s\<lparr>messages := messages s @ [m]\<rparr>) ss"

text \<open>
  \<open>handleChatSubmit\<close> (lines 141-180) is an \<open>async\<close> function: it runs to the
  \<open>await fetch\<close> of line 155, and is resumed when the reply is there, on whatever the
  globals hold by then. \<open>handleChatSubmit\<close> below is the part before the \<open>await\<close>, on
  the value of the input field; \<open>handleChatSubmit_resume\<close> is the part after it.
  Between that \<open>await\<close> and the one of \<open>response.json()\<close> the handler reads no
  global, so the second part is one step, on the state at the time the body is there.
  Line 146 is outside the \<open>try\<close>: its exception rejects the promise.
\<close>

datatype submit_outcome =
    Returned
  | Threw js_error
  | Awaiting string

definition handleChatSubmit :: "string \<Rightarrow> state \<Rightarrow> state \<times> submit_outcome" where
  "handleChatSubmit input st =
     (let userText = trim input in
      if userText = [] then (st, Returned)
      else
        case active_property st of
          Absent \<Rightarrow> (st, Threw (undefined_read ''messages''))
        | Inherited \<Rightarrow> (st, Threw (undefined_read ''push''))
        | Own _ \<Rightarrow>
            let st1 = st\<lparr>allSessions :=
                        push_message (key_of (currentSessionId st))
                          \<lparr>sender = User, msg_text = Str userText\<rparr> (allSessions st)\<rparr>
            in (case addMessageToUI User (Str userText) of
                  Some e \<Rightarrow> (st1, Threw e)
                | None \<Rightarrow> (saveSessions st1, Awaiting userText)))"

text \<open>
  The reply: \<open>fetch\<close> rejects (a network error), or resolves to a response with a
  status and a body; \<open>response.ok\<close> is a status from 200 to 299.
\<close>

datatype reply = Rejected js_error | Response nat body

definition ok :: "nat \<Rightarrow> bool" where
  "ok status = (200 \<le> status \<and> status \<le> 299)"

text \<open>The \<open>catch\<close> block, lines 172-179. Nothing catches what line 176 raises.\<close>

definition catch_block :: "js_error \<Rightarrow> state \<Rightarrow> state \<times> js_error option" where
  "catch_block error st =
     (let errorMsg = ''Error: '' @ message_of error in
      case active_property st of
        Absent \<Rightarrow> (st, Some (undefined_read ''messages''))
      | Inherited \<Rightarrow> (st, Some (undefined_read ''push''))
      | Own _ \<Rightarrow>
          let st1 = st\<lparr>allSessions :=
                      push_message (key_of (currentSessionId st))
                        \<lparr>sender = Bot, msg_text = Str errorMsg\<rparr> (allSessions st)\<rparr>
          in (case addMessageToUI Bot (Str errorMsg) of
                Some e \<Rightarrow> (st1, Some e)
              | None \<Rightarrow> (saveSessions st1, None)))"

text \<open>
  Lines 161-171, between the \<open>await\<close> and the \<open>catch\<close>. In line 165 the
  conversion of the argument of \<open>new Error\<close> can raise, inside the \<open>try\<close>. In line
  169 the receiver \<open>allSessions[currentSessionId].messages\<close> is evaluated before the
  argument \<open>data.answer\<close>, and the message is pushed before \<open>addMessageToUI\<close> runs.
\<close>

definition handleChatSubmit_resume :: "reply \<Rightarrow> state \<Rightarrow> state \<times> js_error option" where
  "handleChatSubmit_resume r st =
     (case r of
        Rejected e \<Rightarrow> catch_block e st
      | Response status b \<Rightarrow>
          if \<not> ok status then
            (case b of
               Unparsable m \<Rightarrow> catch_block (SyntaxError m) st
             | Parsed errorData \<Rightarrow>
                 (case get_prop errorData ''detail'' of
                    Inl e \<Rightarrow> catch_block e st
                  | Inr detail \<Rightarrow>
                      (case ToString (if truthy detail then detail
                                      else Str ''Failed to get response.'') of
                         Inl e \<Rightarrow> catch_block e st
                       | Inr m \<Rightarrow> catch_block (Error m) st)))
          else
            (case b of
               Unparsable m \<Rightarrow> catch_block (SyntaxError m) st
             | Parsed data \<Rightarrow>
                 (case active_property st of
                    Absent \<Rightarrow> catch_block (undefined_read ''messages'') st
                  | Inherited \<Rightarrow> catch_block (undefined_read ''push'') st
                  | Own _ \<Rightarrow>
                      (case get_prop data ''answer'' of
                         Inl e \<Rightarrow> catch_block e st
                       | Inr answer \<Rightarrow>
                           let st1 = st\<lparr>allSessions :=
                                       push_message (key_of (currentSessionId st))
                                         \<lparr>sender = Bot, msg_text = answer\<rparr> (allSessions st)\<rparr>
                           in (case addMessageToUI Bot answer of
                                 Some e \<Rightarrow> catch_block e st1
                               | None \<Rightarrow> (saveSessions st1, None))))))"

subsection \<open>The upload request\<close>



subsection \<open>Export and clear\<close>

text \<open>
  \<open>exportChat\<close> (lines 216-237); \<open>stamp\<close> is \<open>new Date().toLocaleString()\<close>. The
  result is the file handed to the browser for download, its name and its text, or
  nothing. The template literal of line 225 converts the text of each message, and
  nothing catches what the conversion raises. For an active id that names an inherited
  property, line 218 reads \<open>length\<close> off the missing \<open>messages\<close>.
\<close>

definition sender_label :: "sender \<Rightarrow> string" where
  "sender_label s = (if s = User then ''You'' else ''AI Assistant'')"

fun export_lines :: "string \<Rightarrow> message list \<Rightarrow> js_error + string" where
  "export_lines chatText [] = Inr chatText"
| "export_lines chatText (msg # msgs) =
     (case ToString (msg_text msg) of
        Inl e \<Rightarrow> Inl e
      | Inr t \<Rightarrow>
          export_lines (chatText @ ''['' @ sender_label (sender msg) @ '']: '' @ t @ [CHR 0x0A]) msgs)"

definition exportChat :: "string \<Rightarrow> state \<Rightarrow> state \<times> (js_error + (string \<times> string) option)" where
  "exportChat stamp st =
     (case active_property st of
        Absent \<Rightarrow> (showNotification (Str ''Nothing to export.'') True st, Inr None)
      | Inherited \<Rightarrow> (st, Inl (undefined_read ''length''))
      | Own session \<Rightarrow>
          if length (messages session) = 0
          then (showNotification (Str ''Nothing to export.'') True st, Inr None)
          else
            (case export_lines (''Chat Session: '' @ title session @ [CHR 0x0A]
                                @ ''Exported on: '' @ stamp @ [CHR 0x0A, CHR 0x0A])
                               (messages session) of
               Inl e \<Rightarrow> (st, Inl e)
             | Inr chatText \<Rightarrow>
                 (st, Inr (Some (''chat-session-'' @ replace_ws (title session) @ ''.txt'', chatText)))))"

text \<open>
  \<open>clearChat\<close> (lines 240-249). For an active id that names an inherited property,
  line 242 writes \<open>messages\<close> to the built-in object it finds, which the model does
  not follow, and the handler goes on with the session mapping as it is.
\<close>

definition clearChat :: "state \<Rightarrow> state \<times> js_error option" where
  "clearChat st =
     (case active_property st of
        Absent \<Rightarrow> (st, None)
      | Inherited \<Rightarrow>
          (case addMessageToUI Bot (msg_text greeting) of
             Some e \<Rightarrow> (st, Some e)
           | None \<Rightarrow> (showNotification (Str ''Chat cleared'') False (saveSessions st), None))
      | Own _ \<Rightarrow>
          let st1 = st\<lparr>allSessions :=
                      AList.map_entry (key_of (currentSessionId st))
                        (\<lambda>s. s\<lparr>messages := [greeting]\<rparr>) (allSessions st)\<rparr>
          in (case addMessageToUI Bot (msg_text greeting) of
                Some e \<Rightarrow> (st1, Some e)
              | None \<Rightarrow> (showNotification (Str ''Chat cleared'') False (saveSessions st1), None)))"

subsection \<open>Predicates on states and stores\<close>

text \<open>The active id names a key of \<open>allSessions\<close>.\<close>

definition active_is_key :: "state \<Rightarrow> bool" where
  "active_is_key st = (key_of (currentSessionId st) \<in> set (map fst (allSessions st)))"

text \<open>
  The \<open>chatSessions\<close> slot is absent, or holds a falsy value (\<open>null\<close>, \<open>false\<close>,
  \<open>0\<close>, the empty string) or a value that stands for sessions.
\<close>

definition loadable :: "stored option \<Rightarrow> bool" where
  "loadable item =
     (case item of
        None \<Rightarrow> True
      | Some (Malformed m) \<Rightarrow> False
      | Some (Json v) \<Rightarrow> (if truthy v then decode_sessions v \<noteq> None else True))"

text \<open>The stored id names an inherited property and no key of the sessions.\<close>

definition inherited_id :: "sessions \<Rightarrow> string option \<Rightarrow> bool" where
  "inherited_id ss sid = (case sid of None \<Rightarrow> False | Some k \<Rightarrow> get_session ss k = Inherited)"

text \<open>Every text of the list converts to a string, to the strings \<open>ts\<close> in this order.\<close>

definition texts_convert :: "message list \<Rightarrow> string list \<Rightarrow> bool" where
  "texts_convert msgs ts = (map (\<lambda>m. ToString (msg_text m)) msgs = map Inr ts)"

subsection \<open>Example states\<close>

text \<open>
  Two sessions, the first one active and holding one exchange after the greeting; and a
  state, as it can come out of \<open>localStorage\<close>, whose only session has no message.
\<close>

definition example_state :: state where
  "example_state =
     saveSessions
       \<lparr>allSessions =
          [(''session-1'',
            \<lparr>title = ''Chat 1'',
             messages = [greeting, \<lparr>sender = User, msg_text = Str ''What is X?''\<rparr>,
                         \<lparr>sender = Bot, msg_text = Str ''X is Y''\<rparr>]\<rparr>),
           (''session-2'', \<lparr>title = ''Chat 2'', messages = [greeting]\<rparr>)],
        currentSessionId = Some ''session-1'',
        localStorage = \<lparr>stored_chatSessions = None, stored_currentSessionId = None\<rparr>,
        notifications = []\<rparr>"

definition example_state_empty :: state where
  "example_state_empty =
     saveSessions
       \<lparr>allSessions = [(''session-3'', \<lparr>title = ''Chat 1'', messages = []\<rparr>)],
        currentSessionId = Some ''session-3'',
        localStorage = \<lparr>stored_chatSessions = None, stored_currentSessionId = None\<rparr>,
        notifications = []\<rparr>"

text \<open>
  The state before \<open>init\<close> with an empty store, the same with a \<open>chatSessions\<close>
  slot cut short, the same with the store that the first example left, and the state
  after a first \<open>createNewSession\<close>.
\<close>

definition blank_state :: state where
  "blank_state =
     \<lparr>allSessions = [], currentSessionId = None,
      localStorage = \<lparr>stored_chatSessions = None, stored_currentSessionId = None\<rparr>,
      notifications = []\<rparr>"

definition corrupt_state :: state where
  "corrupt_state =
     blank_state\<lparr>localStorage :=
       \<lparr>stored_chatSessions = Some (Malformed ''Unexpected end of JSON input''),
        stored_currentSessionId = Some ''session-1''\<rparr>\<rparr>"

definition reloaded_state :: state where
  "reloaded_state = blank_state\<lparr>localStorage := localStorage example_state\<rparr>"

definition first_session_state :: state where
  "first_session_state = fst (createNewSession 1762054321 blank_state)"

text \<open>
  A question is submitted in the first session; while the request is in flight a second
  session is created, and the user clicks back on the first one.
\<close>

definition in_flight_state :: state where
  "in_flight_state =
     fst (switchSession ''session-1762054321''
       (fst (createNewSession 1762054399
         (fst (handleChatSubmit ''What is X?'' first_session_state)))))"

text \<open>
  The first session after a question whose reply, with status 200, carries as answer an
  object with a property \<open>toString\<close>; and the state before \<open>init\<close> with the store
  of the first example, but \<open>constructor\<close> as the stored id.
\<close>

definition object_answer_state :: state where
  "object_answer_state =
     fst (handleChatSubmit_resume
            (Response 200 (Parsed (Obj [(''answer'', Obj [(''toString'', Str ''X is Y'')])])))
            (fst (handleChatSubmit ''What is X?'' first_session_state)))"

definition constructor_state :: state where
  "constructor_state =
     blank_state\<lparr>localStorage :=
       (localStorage example_state)\<lparr>stored_currentSessionId := Some ''constructor''\<rparr>\<rparr>"

section \<open>Properties\<close>

subsection \<open>Auxiliary facts\<close>

lemma map_of_push_message:
  "map_of (push_message k m ss) =
     (map_of ss)(k := map_option (\<lambda>s. s\<lparr>messages := messages s @ [m]\<rparr>) (map_of ss k))"
  by (auto simp: push_message_def map_of_map_entry fun_eq_iff split: option.splits)

lemma keys_map_entry: "map fst (AList.map_entry k f ss) = map fst ss"
  by (induction ss) auto

lemma trim_all_ws:
  assumes "list_all is_ws s"
  shows "trim s = []"
  using assms by (auto simp: trim_def list_all_iff dest: set_dropWhileD)

lemma active_property_Own: "current_session st = Some s \<Longrightarrow> active_property st = Own s"
  by (simp add: active_property_def get_session_def current_session_def)

lemma current_session_example:
  "current_session example_state =
     Some \<lparr>title = ''Chat 1'',
           messages = [greeting, \<lparr>sender = User, msg_text = Str ''What is X?''\<rparr>,
                       \<lparr>sender = Bot, msg_text = Str ''X is Y''\<rparr>]\<rparr>"
  by (simp add: current_session_def example_state_def saveSessions_def)

lemma current_session_None_iff: "current_session st = None \<longleftrightarrow> \<not> active_is_key st"
  by (simp add: current_session_def active_is_key_def map_of_eq_None_iff)

lemma keys_push_message: "map fst (push_message k m ss) = map fst ss"
  by (simp add: push_message_def keys_map_entry)

lemma update_fresh: "k \<notin> set (map fst al) \<Longrightarrow> AList.update k v al = al @ [(k, v)]"
  by (induction al) auto

lemma decimal_digit: "n < 10 \<Longrightarrow> decimal n = [digit_char n]"
  by (simp add: decimal.simps)

lemma trim_example: "trim ''What is X?'' = ''What is X?''"
  by (simp add: trim_def is_ws_def)

text \<open>The handlers keep the keys and the active id; only \<open>switchSession\<close> and
  \<open>createNewSession\<close> assign the latter.\<close>

lemma catch_block_keys:
  "map fst (allSessions (fst (catch_block e st))) = map fst (allSessions st)
   \<and> currentSessionId (fst (catch_block e st)) = currentSessionId st"
  by (simp add: catch_block_def Let_def saveSessions_def keys_push_message split: property.splits)

lemma handleChatSubmit_keys:
  "map fst (allSessions (fst (handleChatSubmit input st))) = map fst (allSessions st)
   \<and> currentSessionId (fst (handleChatSubmit input st)) = currentSessionId st"
  by (simp add: handleChatSubmit_def Let_def saveSessions_def keys_push_message split: property.splits)

lemma handleChatSubmit_resume_keys:
  "map fst (allSessions (fst (handleChatSubmit_resume r st))) = map fst (allSessions st)
   \<and> currentSessionId (fst (handleChatSubmit_resume r st)) = currentSessionId st"
  by (simp add: handleChatSubmit_resume_def Let_def saveSessions_def keys_push_message catch_block_keys
      split: property.splits option.splits reply.splits body.splits sum.splits)

lemma clearChat_keys:
  "map fst (allSessions (fst (clearChat st))) = map fst (allSessions st)
   \<and> currentSessionId (fst (clearChat st)) = currentSessionId st"
  by (simp add: clearChat_def Let_def saveSessions_def showNotification_def keys_map_entry greeting_def
      split: property.splits)

lemma exportChat_keys:
  "map fst (allSessions (fst (exportChat stamp st))) = map fst (allSessions st)
   \<and> currentSessionId (fst (exportChat stamp st)) = currentSessionId st"
  by (simp add: exportChat_def showNotification_def split: property.splits sum.splits)

text \<open>\<open>createNewSession\<close> never raises: the history it renders is the greeting.\<close>

lemma createNewSession_result:
  "createNewSession now st =
     (saveSessions
        (st\<lparr>currentSessionId := Some (''session-'' @ decimal now),
            allSessions :=
              AList.update (''session-'' @ decimal now)
                \<lparr>title = ''Chat '' @ decimal (length (allSessions st) + 1), messages = [greeting]\<rparr>
                (allSessions st)\<rparr>), None)"
  by (simp add: createNewSession_def Let_def loadChatHistory_def active_property_def get_session_def
      update_conv' greeting_def)

lemma createNewSession_active: "active_is_key (fst (createNewSession now st))"
  by (simp add: createNewSession_result saveSessions_def active_is_key_def dom_update)

lemma first_session_state_eq:
  "allSessions first_session_state =
     [(''session-1762054321'', \<lparr>title = ''Chat 1'', messages = [greeting]\<rparr>)]
   \<and> currentSessionId first_session_state = Some ''session-1762054321''"
proof -
  have d: "decimal 1762054321 = ''1762054321''"
    by (simp add: decimal.simps digit_char_def)
  show ?thesis
    by (simp add: first_session_state_def createNewSession_result blank_state_def saveSessions_def
      decimal_digit digit_char_def d)
qed

text \<open>What the two halves of the chat handler do on their main paths.\<close>

lemma saved_push_lookup:
  "map_of (allSessions (saveSessions (st\<lparr>allSessions := push_message k m (allSessions st)\<rparr>))) k'
     = (if k' = k then map_option (\<lambda>s. s\<lparr>messages := messages s @ [m]\<rparr>) (map_of (allSessions st) k)
        else map_of (allSessions st) k')"
  by (simp add: saveSessions_def map_of_push_message)

lemma current_session_saved_push:
  "current_session
     (saveSessions (st\<lparr>allSessions := push_message (key_of (currentSessionId st)) m (allSessions st)\<rparr>))
     = map_option (\<lambda>s. s\<lparr>messages := messages s @ [m]\<rparr>) (current_session st)"
  by (simp add: current_session_def saveSessions_def map_of_push_message)

lemma currentSessionId_saved:
  "currentSessionId (saveSessions (st\<lparr>allSessions := ss\<rparr>)) = currentSessionId st"
  by (simp add: saveSessions_def)

lemma handleChatSubmit_appends:
  assumes "trim input \<noteq> []" and "current_session st = Some s"
  shows "handleChatSubmit input st =
     (saveSessions (st\<lparr>allSessions :=
        push_message (key_of (currentSessionId st))
          \<lparr>sender = User, msg_text = Str (trim input)\<rparr> (allSessions st)\<rparr>), Awaiting (trim input))"
  using assms by (simp add: handleChatSubmit_def Let_def active_property_Own)

lemma answer_resume:
  assumes "ok status" and "map_of fs ''answer'' = Some (Str answer)" and "current_session st = Some s"
  shows "handleChatSubmit_resume (Response status (Parsed (Obj fs))) st =
     (saveSessions (st\<lparr>allSessions :=
        push_message (key_of (currentSessionId st))
          \<lparr>sender = Bot, msg_text = Str answer\<rparr> (allSessions st)\<rparr>), None)"
  using assms by (simp add: handleChatSubmit_resume_def Let_def active_property_Own)

lemma catch_block_appends:
  assumes "current_session st = Some s"
  shows "catch_block e st =
     (saveSessions (st\<lparr>allSessions :=
        push_message (key_of (currentSessionId st))
          \<lparr>sender = Bot, msg_text = Str (''Error: '' @ message_of e)\<rparr> (allSessions st)\<rparr>), None)"
  using assms by (simp add: catch_block_def Let_def active_property_Own)

subsection \<open>Switching sessions touches the pointer only\<close>

text \<open>
  C10. For every argument and every state, \<open>switchSession\<close> leaves the sessions
  mapping as it was: every key, title and message sequence, in the same order. This
  holds also when rendering the newly selected history raises.
\<close>

theorem switchSession_frame:
  "allSessions (fst (switchSession sessionId st)) = allSessions st"
  by (simp add: switchSession_def Let_def split: option.splits)

subsection \<open>Blank input\<close>

text \<open>
  C9. When the input consists of whitespace only (or is empty), \<open>handleChatSubmit\<close>
  returns at line 144: the state is the one it was given, so no message is appended to
  any session and nothing is written to \<open>localStorage\<close>, and the outcome is
  \<open>Returned\<close>, not \<open>Awaiting\<close>: no request is issued.
\<close>

theorem handleChatSubmit_blank:
  assumes "list_all is_ws input"
  shows "handleChatSubmit input st = (st, Returned)"
  using assms by (simp add: handleChatSubmit_def trim_all_ws)

theorem handleChatSubmit_blank_witness:
  "list_all is_ws [CHR 0x20, CHR 0x09, CHR 0x0A] \<and>
   handleChatSubmit [CHR 0x20, CHR 0x09, CHR 0x0A] example_state = (example_state, Returned)"
proof -
  have ws: "list_all is_ws [CHR 0x20, CHR 0x09, CHR 0x0A]"
    by (simp add: is_ws_def)
  from handleChatSubmit_blank [OF ws, of example_state] ws show ?thesis
    by simp
qed

subsection \<open>Clearing the active session\<close>

text \<open>
  C7. When the active session exists, \<open>clearChat\<close> completes without an exception and
  leaves that session with its title and with exactly one message, the greeting; the
  active id, the order of the keys and every other session are unchanged.
\<close>

theorem clearChat_greeting:
  assumes "current_session st = Some s"
  shows "snd (clearChat st) = None
       \<and> currentSessionId (fst (clearChat st)) = currentSessionId st
       \<and> map fst (allSessions (fst (clearChat st))) = map fst (allSessions st)
       \<and> map_of (allSessions (fst (clearChat st))) (key_of (currentSessionId st))
           = Some (s\<lparr>messages := [greeting]\<rparr>)
       \<and> (\<forall>k. k \<noteq> key_of (currentSessionId st) \<longrightarrow>
             map_of (allSessions (fst (clearChat st))) k = map_of (allSessions st) k)"
proof -
  have m: "map_of (allSessions st) (key_of (currentSessionId st)) = Some s"
    using assms by (simp add: current_session_def)
  show ?thesis
    by (simp add: clearChat_def active_property_Own [OF assms] m greeting_def Let_def saveSessions_def
      showNotification_def map_of_map_entry keys_map_entry)
qed

theorem clearChat_greeting_witness:
  "current_session example_state =
     Some \<lparr>title = ''Chat 1'',
           messages = [greeting, \<lparr>sender = User, msg_text = Str ''What is X?''\<rparr>,
                       \<lparr>sender = Bot, msg_text = Str ''X is Y''\<rparr>]\<rparr>
   \<and> snd (clearChat example_state) = None
   \<and> map_of (allSessions (fst (clearChat example_state))) ''session-1''
       = Some \<lparr>title = ''Chat 1'', messages = [greeting]\<rparr>
   \<and> map_of (allSessions (fst (clearChat example_state))) ''session-2''
       = Some \<lparr>title = ''Chat 2'', messages = [greeting]\<rparr>"
proof -
  note h = current_session_example
  have k: "key_of (currentSessionId example_state) = ''session-1''"
    by (simp add: example_state_def saveSessions_def)
  have other: "map_of (allSessions example_state) ''session-2''
       = Some \<lparr>title = ''Chat 2'', messages = [greeting]\<rparr>"
    by (simp add: example_state_def saveSessions_def)
  from clearChat_greeting [OF h] h k other show ?thesis
    by simp
qed

subsection \<open>Creating a session\<close>

text \<open>
  C5, as amended. The id of a new session is \<open>session-\<close> followed by the clock reading.
  When that id is not yet a key, \<open>createNewSession\<close> completes, appends one session
  under it, titled \<open>Chat N\<close> with \<open>N\<close> the former number of sessions plus one and
  holding the greeting alone, makes it the active one, leaves every other session as it
  was, and the number of sessions grows by exactly one.
\<close>

theorem createNewSession_fresh:
  assumes "''session-'' @ decimal now \<notin> set (map fst (allSessions st))"
  shows "snd (createNewSession now st) = None
       \<and> currentSessionId (fst (createNewSession now st)) = Some (''session-'' @ decimal now)
       \<and> allSessions (fst (createNewSession now st)) =
           allSessions st @
             [(''session-'' @ decimal now,
               \<lparr>title = ''Chat '' @ decimal (length (allSessions st) + 1), messages = [greeting]\<rparr>)]
       \<and> length (allSessions (fst (createNewSession now st))) = length (allSessions st) + 1"
  using assms by (simp add: createNewSession_result saveSessions_def update_fresh)

theorem createNewSession_fresh_witness:
  "''session-'' @ decimal 1762054321 \<notin> set (map fst (allSessions example_state))
   \<and> currentSessionId (fst (createNewSession 1762054321 example_state)) = Some ''session-1762054321''
   \<and> allSessions (fst (createNewSession 1762054321 example_state)) =
       allSessions example_state @
         [(''session-1762054321'', \<lparr>title = ''Chat 3'', messages = [greeting]\<rparr>)]
   \<and> length (allSessions (fst (createNewSession 1762054321 example_state))) = 3"
proof -
  have d: "decimal 1762054321 = ''1762054321''"
    by (simp add: decimal.simps digit_char_def)
  have t: "decimal 3 = ''3''"
    by (simp add: decimal.simps digit_char_def)
  have k: "map fst (allSessions example_state) = [''session-1'', ''session-2'']"
    by (simp add: example_state_def saveSessions_def)
  have f: "''session-'' @ decimal 1762054321 \<notin> set (map fst (allSessions example_state))"
    by (simp add: d k)
  have l: "length (allSessions example_state) = 2"
    by (simp add: example_state_def saveSessions_def)
  from createNewSession_fresh [OF f] f d t l show ?thesis
    by simp
qed

text \<open>As the claim is stated: a clock reading seen before gives an id that is not fresh,
  the session under it is replaced and the number of sessions stays.\<close>

theorem createNewSession_collision_counterexample:
  "''session-'' @ decimal 1 \<in> set (map fst (allSessions example_state))
   \<and> currentSessionId (fst (createNewSession 1 example_state)) = Some ''session-1''
   \<and> length (allSessions (fst (createNewSession 1 example_state))) = length (allSessions example_state)
   \<and> allSessions (fst (createNewSession 1 example_state)) =
       [(''session-1'', \<lparr>title = ''Chat 3'', messages = [greeting]\<rparr>),
        (''session-2'', \<lparr>title = ''Chat 2'', messages = [greeting]\<rparr>)]"
  by (simp add: createNewSession_result example_state_def saveSessions_def decimal_digit
      digit_char_def)

subsection \<open>A failed upload\<close>




subsection \<open>The active id and the keys\<close>

text \<open>
  C2, as amended. \<open>switchSession\<close> has no membership test: it makes its argument the
  active id whatever the argument is, so that afterwards the active id is a key exactly
  when the argument is one. \<open>createNewSession\<close> puts the active id on a key;
  \<open>clearChat\<close>, both halves of \<open>handleChatSubmit\<close> and \<open>exportChat\<close> keep it on
  one.
\<close>

theorem active_pointer:
  "currentSessionId (fst (switchSession sessionId st)) = Some sessionId
   \<and> (active_is_key (fst (switchSession sessionId st))
        \<longleftrightarrow> sessionId \<in> set (map fst (allSessions st)))
   \<and> active_is_key (fst (createNewSession now st))
   \<and> (active_is_key st \<longrightarrow>
          active_is_key (fst (clearChat st))
        \<and> active_is_key (fst (handleChatSubmit input st))
        \<and> active_is_key (fst (handleChatSubmit_resume r st))
        \<and> active_is_key (fst (exportChat stamp st)))"
proof -
  have 1: "currentSessionId (fst (switchSession sessionId st)) = Some sessionId"
    by (simp add: switchSession_def Let_def split: option.splits)
  have 2: "active_is_key (fst (switchSession sessionId st))
            \<longleftrightarrow> sessionId \<in> set (map fst (allSessions st))"
  proof (cases "Some sessionId = currentSessionId st")
    case True
    then have "key_of (currentSessionId st) = sessionId"
      by (simp flip: True)
    with True show ?thesis
      by (simp add: switchSession_def active_is_key_def)
  next
    case False
    then show ?thesis
      by (simp add: switchSession_def Let_def active_is_key_def split: option.splits)
  qed
  have 4: "active_is_key (fst (clearChat st))" if "active_is_key st"
    using that by (simp add: active_is_key_def clearChat_keys)
  have 5: "active_is_key (fst (handleChatSubmit input st))" if "active_is_key st"
    using that by (simp add: active_is_key_def handleChatSubmit_keys)
  have 6: "active_is_key (fst (handleChatSubmit_resume r st))" if "active_is_key st"
    using that by (simp add: active_is_key_def handleChatSubmit_resume_keys)
  have 7: "active_is_key (fst (exportChat stamp st))" if "active_is_key st"
    using that by (simp add: active_is_key_def exportChat_keys)
  from 1 2 4 5 6 7 createNewSession_active show ?thesis
    by blast
qed

theorem active_pointer_witness:
  "active_is_key example_state
   \<and> currentSessionId (fst (switchSession ''session-2'' example_state)) = Some ''session-2''
   \<and> active_is_key (fst (switchSession ''session-2'' example_state))
   \<and> active_is_key (fst (createNewSession 1762054321 example_state))
   \<and> active_is_key (fst (clearChat example_state))
   \<and> active_is_key (fst (handleChatSubmit ''What is X?'' example_state))"
proof -
  have a: "active_is_key example_state"
    by (simp add: active_is_key_def example_state_def saveSessions_def)
  have k: "map fst (allSessions example_state) = [''session-1'', ''session-2'']"
    by (simp add: example_state_def saveSessions_def)
  from active_pointer [of "''session-2''" example_state 1762054321 "''What is X?''"] a k
  show ?thesis by simp
qed

text \<open>As the claim is stated: an id that is no key does become the active id.\<close>

theorem switchSession_unknown_counterexample:
  "active_is_key example_state
   \<and> ''session-9'' \<notin> set (map fst (allSessions example_state))
   \<and> currentSessionId (fst (switchSession ''session-9'' example_state)) = Some ''session-9''
   \<and> currentSessionId (fst (switchSession ''session-9'' example_state)) \<noteq> currentSessionId example_state
   \<and> \<not> active_is_key (fst (switchSession ''session-9'' example_state))"
  by (simp add: active_is_key_def example_state_def saveSessions_def switchSession_def Let_def
      split: option.splits)

subsection \<open>Loading the store\<close>

lemma loadable_read:
  assumes "loadable (stored_chatSessions ls)"
  shows "\<exists>ss. loadSessions_read ls = Read ss (stored_currentSessionId ls)"
  using assms
  by (auto simp: loadable_def loadSessions_read_def split: option.splits stored.splits if_splits)

text \<open>
  C3, as amended. When the \<open>chatSessions\<close> slot is absent, or holds a falsy value or
  a value that stands for sessions, \<open>loadSessions\<close> completes without an exception,
  and it leaves the active id on a key when the stored id is not the name of an
  inherited property that is no key of the stored sessions. When both slots are absent,
  what is read is the empty mapping and a null id, and the first session, \<open>Chat 1\<close>
  with the greeting, is created and made active.
\<close>

theorem loadSessions_no_raise:
  assumes "loadable (stored_chatSessions (localStorage st))"
  shows "\<exists>ss st'.
           loadSessions_read (localStorage st) = Read ss (stored_currentSessionId (localStorage st))
         \<and> loadSessions now st = Done st' None
         \<and> (\<not> inherited_id ss (stored_currentSessionId (localStorage st)) \<longrightarrow> active_is_key st')
         \<and> (stored_chatSessions (localStorage st) = None
              \<and> stored_currentSessionId (localStorage st) = None
            \<longrightarrow> ss = []
              \<and> currentSessionId st' = Some (''session-'' @ decimal now)
              \<and> allSessions st' =
                  [(''session-'' @ decimal now, \<lparr>title = ''Chat 1'', messages = [greeting]\<rparr>)])"
proof -
  let ?sid = "stored_currentSessionId (localStorage st)"
  from loadable_read [OF assms] obtain ss
    where r: "loadSessions_read (localStorage st) = Read ss ?sid"
    by blast
  let ?st1 = "st\<lparr>allSessions := ss, currentSessionId := ?sid\<rparr>"
  show ?thesis
  proof (cases "?sid = None \<or> ?sid = Some [] \<or> active_property ?st1 = Absent")
    case True
    then have l: "loadSessions now st = Done (fst (createNewSession now ?st1)) None"
      by (simp add: loadSessions_def r Let_def createNewSession_result)
    have e: "ss = []
        \<and> currentSessionId (fst (createNewSession now ?st1)) = Some (''session-'' @ decimal now)
        \<and> allSessions (fst (createNewSession now ?st1)) =
            [(''session-'' @ decimal now, \<lparr>title = ''Chat 1'', messages = [greeting]\<rparr>)]"
      if "stored_chatSessions (localStorage st) = None"
      using that r
      by (simp add: loadSessions_read_def createNewSession_result saveSessions_def decimal_digit
          digit_char_def)
    show ?thesis
      apply (rule exI [of _ ss])
      apply (rule exI [of _ "fst (createNewSession now ?st1)"])
      using r l e createNewSession_active [of now ?st1] apply auto
      done
  next
    case False
    then have n: "\<not> (?sid = None \<or> ?sid = Some [] \<or> active_property ?st1 = Absent)"
      by simp
    from False obtain k where k: "?sid = Some k" "active_property ?st1 \<noteq> Absent"
      by auto
    have l: "loadSessions now st = Done ?st1 None"
      unfolding loadSessions_def r Let_def using n by (simp only: read_result.case if_False)
    have a: "active_is_key ?st1" if "\<not> inherited_id ss ?sid"
      using that k
      by (auto simp: inherited_id_def active_property_def get_session_def active_is_key_def
          split: option.splits if_splits dest: map_of_SomeD intro: rev_image_eqI)
    show ?thesis
      apply (rule exI [of _ ss])
      apply (rule exI [of _ ?st1])
      using r l a k apply auto
      done
  qed
qed

theorem loadSessions_no_raise_witness:
  "loadable (stored_chatSessions (localStorage blank_state))
   \<and> \<not> inherited_id [] (stored_currentSessionId (localStorage blank_state))
   \<and> loadSessions 1762054321 blank_state =
       Done (saveSessions
              (blank_state\<lparr>allSessions :=
                  [(''session-1762054321'', \<lparr>title = ''Chat 1'', messages = [greeting]\<rparr>)],
                currentSessionId := Some ''session-1762054321''\<rparr>)) None
   \<and> loadable (stored_chatSessions (localStorage reloaded_state))
   \<and> loadSessions_read (localStorage reloaded_state) = Read (allSessions example_state) (Some ''session-1'')
   \<and> (\<exists>st'. loadSessions 1762054321 reloaded_state = Done st' None \<and> active_is_key st')"
proof -
  have m: "loadable (stored_chatSessions (localStorage blank_state))"
    by (simp add: loadable_def blank_state_def)
  have d: "decimal 1762054321 = ''1762054321''"
    by (simp add: decimal.simps digit_char_def)
  have b: "loadSessions 1762054321 blank_state =
       Done (saveSessions
              (blank_state\<lparr>allSessions :=
                  [(''session-1762054321'', \<lparr>title = ''Chat 1'', messages = [greeting]\<rparr>)],
                currentSessionId := Some ''session-1762054321''\<rparr>)) None"
    by (simp add: loadSessions_def loadSessions_read_def blank_state_def Let_def createNewSession_result
        d decimal_digit digit_char_def)
  have r: "loadSessions_read (localStorage reloaded_state) = Read (allSessions example_state) (Some ''session-1'')"
    by (simp add: loadSessions_read_def reloaded_state_def blank_state_def example_state_def saveSessions_def
        encode_sessions_def encode_session_def encode_message_def decode_sessions_def decode_session_def
        decode_message_def decode_sender_def greeting_def)
  have m': "loadable (stored_chatSessions (localStorage reloaded_state))"
    using r by (auto simp: loadable_def loadSessions_read_def split: option.splits stored.splits if_splits)
  have i: "\<not> inherited_id (allSessions example_state) (stored_currentSessionId (localStorage reloaded_state))"
    by (simp add: inherited_id_def get_session_def reloaded_state_def blank_state_def example_state_def
        saveSessions_def)
  have i0: "\<not> inherited_id [] (stored_currentSessionId (localStorage blank_state))"
    by (simp add: inherited_id_def blank_state_def)
  from loadSessions_no_raise [OF m', of 1762054321] r i
  have "\<exists>st'. loadSessions 1762054321 reloaded_state = Done st' None \<and> active_is_key st'"
    by auto
  with loadSessions_no_raise [OF m, of 1762054321] m m' b r i0 show ?thesis
    by simp
qed

text \<open>As the claim is stated: nothing catches the \<open>SyntaxError\<close> of \<open>JSON.parse\<close>, it
  leaves \<open>loadSessions\<close> and \<open>init\<close>.\<close>

theorem loadSessions_corrupt_counterexample:
  "loadSessions_read (localStorage corrupt_state)
     = Parse_error (SyntaxError ''Unexpected end of JSON input'')
   \<and> loadSessions 1762054321 corrupt_state =
       Done corrupt_state (Some (SyntaxError ''Unexpected end of JSON input''))
   \<and> init 1762054321 corrupt_state =
       Done corrupt_state (Some (SyntaxError ''Unexpected end of JSON input''))"
  by (simp add: loadSessions_def init_def loadSessions_read_def corrupt_state_def)

text \<open>
  With \<open>constructor\<close> as the stored id, line 93 finds the inherited property and
  creates nothing: \<open>loadSessions\<close> completes on an active id that is no key, and
  \<open>init\<close> raises when it renders the history.
\<close>

lemma loadSessions_inherited_id:
  "loadable (stored_chatSessions (localStorage constructor_state))
   \<and> loadSessions 1762054321 constructor_state =
       Done (constructor_state\<lparr>allSessions := allSessions example_state,
                               currentSessionId := Some ''constructor''\<rparr>) None
   \<and> init 1762054321 constructor_state =
       Done (constructor_state\<lparr>allSessions := allSessions example_state,
                               currentSessionId := Some ''constructor''\<rparr>)
            (Some (undefined_read ''forEach''))"
proof -
  have r: "loadSessions_read (localStorage constructor_state) =
      Read (allSessions example_state) (Some ''constructor'')"
    by (simp add: loadSessions_read_def constructor_state_def blank_state_def example_state_def
        saveSessions_def encode_sessions_def encode_session_def encode_message_def decode_sessions_def
        decode_session_def decode_message_def decode_sender_def greeting_def)
  have p: "active_property (constructor_state\<lparr>allSessions := allSessions example_state,
                               currentSessionId := Some ''constructor''\<rparr>) = Inherited"
    by (simp add: active_property_def get_session_def example_state_def saveSessions_def
        Object_prototype_names_def)
  have l: "loadSessions 1762054321 constructor_state =
       Done (constructor_state\<lparr>allSessions := allSessions example_state,
                               currentSessionId := Some ''constructor''\<rparr>) None"
    by (simp add: loadSessions_def r p Let_def)
  have m: "loadable (stored_chatSessions (localStorage constructor_state))"
    using r by (auto simp: loadable_def loadSessions_read_def split: option.splits stored.splits if_splits)
  from m l p show ?thesis
    by (simp add: init_def loadChatHistory_def)
qed

subsection \<open>Exporting the active session\<close>

lemma export_lines_converted:
  assumes "texts_convert msgs ts"
  shows "export_lines acc msgs =
     Inr (acc @ concat (map2 (\<lambda>m t. (if sender m = User then ''[You]: '' else ''[AI Assistant]: '')
                                      @ t @ [CHR 0x0A]) msgs ts))"
  using assms
proof (induction msgs arbitrary: acc ts)
  case Nil
  then show ?case by (simp add: texts_convert_def)
next
  case (Cons m msgs)
  from Cons.prems obtain t ts' where ts: "ts = t # ts'" "ToString (msg_text m) = Inr t"
    "texts_convert msgs ts'"
    by (cases ts) (auto simp: texts_convert_def)
  from Cons.IH [OF ts(3)] ts(1,2) show ?case
    by (simp add: sender_label_def)
qed

lemma string_texts_convert:
  "texts_convert (map (\<lambda>t. \<lparr>sender = sd t, msg_text = Str t\<rparr>) ts) ts"
  by (simp add: texts_convert_def comp_def)

text \<open>
  C6, as amended. On an active session without messages \<open>exportChat\<close> reports
  \<open>Nothing to export.\<close> as an error notification, hands no file over, and leaves
  the sessions, the active id and the store as they were. On an active session with at
  least one message, all of whose texts convert to strings (as every string does), it
  changes nothing and hands over a file whose text is the header followed by one line
  per message, in the order of the session: \<open>[You]: \<close> for a user message,
  \<open>[AI Assistant]: \<close> for any other, then the converted text and a line feed.
\<close>

theorem exportChat_contents:
  assumes "current_session st = Some s"
  shows "(messages s = [] \<longrightarrow>
            exportChat stamp st =
              (st\<lparr>notifications := notifications st @ [(Str ''Nothing to export.'', True)]\<rparr>, Inr None))
       \<and> (messages s \<noteq> [] \<and> texts_convert (messages s) ts \<longrightarrow>
            exportChat stamp st =
              (st, Inr (Some (''chat-session-'' @ replace_ws (title s) @ ''.txt'',
                 ''Chat Session: '' @ title s @ [CHR 0x0A]
                 @ ''Exported on: '' @ stamp @ [CHR 0x0A, CHR 0x0A]
                 @ concat (map2 (\<lambda>m t. (if sender m = User then ''[You]: '' else ''[AI Assistant]: '')
                                         @ t @ [CHR 0x0A]) (messages s) ts)))))"
proof -
  note p = active_property_Own [OF assms]
  have 1: "exportChat stamp st =
      (st\<lparr>notifications := notifications st @ [(Str ''Nothing to export.'', True)]\<rparr>, Inr None)"
    if "messages s = []"
    using that by (simp add: exportChat_def p showNotification_def)
  have 2: "exportChat stamp st =
      (st, Inr (Some (''chat-session-'' @ replace_ws (title s) @ ''.txt'',
         ''Chat Session: '' @ title s @ [CHR 0x0A]
         @ ''Exported on: '' @ stamp @ [CHR 0x0A, CHR 0x0A]
         @ concat (map2 (\<lambda>m t. (if sender m = User then ''[You]: '' else ''[AI Assistant]: '')
                                 @ t @ [CHR 0x0A]) (messages s) ts))))"
    if "messages s \<noteq> []" "texts_convert (messages s) ts"
    using that(1) by (simp add: exportChat_def p export_lines_converted [OF that(2)])
  from 1 2 show ?thesis
    by blast
qed

theorem exportChat_contents_witness:
  "current_session example_state_empty = Some \<lparr>title = ''Chat 1'', messages = []\<rparr>
   \<and> exportChat ''2/11/2026'' example_state_empty =
       (example_state_empty\<lparr>notifications := [(Str ''Nothing to export.'', True)]\<rparr>, Inr None)
   \<and> texts_convert
        [greeting, \<lparr>sender = User, msg_text = Str ''What is X?''\<rparr>,
         \<lparr>sender = Bot, msg_text = Str ''X is Y''\<rparr>]
        [''Hello! Ask me anything about the knowledge base.'', ''What is X?'', ''X is Y'']
   \<and> exportChat ''2/11/2026'' example_state =
       (example_state,
        Inr (Some (''chat-session-Chat-1.txt'',
          ''Chat Session: Chat 1'' @ [CHR 0x0A] @ ''Exported on: 2/11/2026'' @ [CHR 0x0A, CHR 0x0A]
          @ ''[AI Assistant]: Hello! Ask me anything about the knowledge base.'' @ [CHR 0x0A]
          @ ''[You]: What is X?'' @ [CHR 0x0A]
          @ ''[AI Assistant]: X is Y'' @ [CHR 0x0A])))"
proof -
  have h0: "current_session example_state_empty = Some \<lparr>title = ''Chat 1'', messages = []\<rparr>"
    by (simp add: current_session_def example_state_empty_def saveSessions_def)
  note h1 = current_session_example
  have n: "notifications example_state_empty = []"
    by (simp add: example_state_empty_def saveSessions_def)
  have c: "texts_convert
        [greeting, \<lparr>sender = User, msg_text = Str ''What is X?''\<rparr>,
         \<lparr>sender = Bot, msg_text = Str ''X is Y''\<rparr>]
        [''Hello! Ask me anything about the knowledge base.'', ''What is X?'', ''X is Y'']"
    by (simp add: texts_convert_def greeting_def)
  have w: "replace_ws ''Chat 1'' = ''Chat-1''"
    by (simp add: is_ws_def)
  from exportChat_contents [OF h0, where stamp = "''2/11/2026''"]
    exportChat_contents [OF h1, where stamp = "''2/11/2026''"
      and ts = "[''Hello! Ask me anything about the knowledge base.'', ''What is X?'', ''X is Y'']"]
    h0 n c w show ?thesis
    by (simp add: greeting_def)
qed

lemma object_answer_session:
  "current_session object_answer_state =
     Some \<lparr>title = ''Chat 1'',
           messages = [greeting, \<lparr>sender = User, msg_text = Str ''What is X?''\<rparr>,
                       \<lparr>sender = Bot, msg_text = Obj [(''toString'', Str ''X is Y'')]\<rparr>,
                       \<lparr>sender = Bot, msg_text = Str ''Error: text.replace is not a function''\<rparr>]\<rparr>"
proof -
  have c: "current_session first_session_state = Some \<lparr>title = ''Chat 1'', messages = [greeting]\<rparr>"
    by (simp add: first_session_state_eq current_session_def)
  have t: "trim ''What is X?'' \<noteq> []"
    by (simp add: trim_example)
  have k: "key_of (currentSessionId first_session_state) = ''session-1762054321''"
    by (simp add: first_session_state_eq)
  show ?thesis
    by (simp add: object_answer_state_def handleChatSubmit_appends [OF t c] trim_example
        handleChatSubmit_resume_def catch_block_def ok_def Let_def active_property_def get_session_def
        current_session_def saveSessions_def map_of_push_message first_session_state_eq k)
qed

text \<open>As the claim is stated: the session holds four messages, the third with an object
  that has a property \<open>toString\<close> for its text, as line 169 pushed it; line 225 raises
  on it and no file is handed over.\<close>

theorem exportChat_object_text_counterexample:
  "current_session object_answer_state =
     Some \<lparr>title = ''Chat 1'',
           messages = [greeting, \<lparr>sender = User, msg_text = Str ''What is X?''\<rparr>,
                       \<lparr>sender = Bot, msg_text = Obj [(''toString'', Str ''X is Y'')]\<rparr>,
                       \<lparr>sender = Bot, msg_text = Str ''Error: text.replace is not a function''\<rparr>]\<rparr>
   \<and> exportChat ''2/11/2026'' object_answer_state =
       (object_answer_state, Inl (TypeError ''Cannot convert object to primitive value''))"
  by (simp add: object_answer_session exportChat_def active_property_Own [OF object_answer_session]
      greeting_def to_primitive_error_def)

subsection \<open>A failing chat reply\<close>

text \<open>
  Where the reply is a network error, a body that does not parse, any body with a status
  outside 200-299, or the body \<open>null\<close>, and the active id is a key, the handler
  completes and appends one bot message, \<open>Error: \<close> and the message of the error, to
  the active session; for a non-empty string \<open>detail\<close> that message is the \<open>detail\<close>.
\<close>

lemma error_reply_appends_one_message:
  assumes "current_session st = Some s"
    and "r = Rejected e \<or> r = Response status (Unparsable m)
         \<or> (r = Response status (Parsed v) \<and> \<not> ok status)
         \<or> (r = Response status (Parsed Null))"
  shows "\<exists>t. handleChatSubmit_resume r st =
     (saveSessions (st\<lparr>allSessions :=
        push_message (key_of (currentSessionId st))
          \<lparr>sender = Bot, msg_text = Str (''Error: '' @ t)\<rparr> (allSessions st)\<rparr>), None)"
proof -
  have c: "\<exists>t. catch_block e' st =
     (saveSessions (st\<lparr>allSessions :=
        push_message (key_of (currentSessionId st))
          \<lparr>sender = Bot, msg_text = Str (''Error: '' @ t)\<rparr> (allSessions st)\<rparr>), None)" for e'
    using catch_block_appends [OF assms(1)] by blast
  have "\<exists>e'. handleChatSubmit_resume r st = catch_block e' st"
    using assms(2)
    by (auto simp: handleChatSubmit_resume_def active_property_Own [OF assms(1)]
        split: sum.splits)
  with c show ?thesis
    by auto
qed

lemma detail_reply_text:
  assumes "current_session st = Some s"
    and "\<not> ok status" and "map_of fs ''detail'' = Some (Str d)" and "d \<noteq> []"
  shows "handleChatSubmit_resume (Response status (Parsed (Obj fs))) st =
     (saveSessions (st\<lparr>allSessions :=
        push_message (key_of (currentSessionId st))
          \<lparr>sender = Bot, msg_text = Str (''Error: '' @ d)\<rparr> (allSessions st)\<rparr>), None)"
  using assms by (simp add: handleChatSubmit_resume_def catch_block_appends [OF assms(1)])

text \<open>
  C4. On a reply with status 200 whose body is the object \<open>{}\<close>, the handler completes
  and appends two bot messages to the active session, where exactly one, beginning with
  \<open>Error: \<close>, is asked for: line 169 pushes the \<open>undefined\<close> answer, line 170 raises
  on it inside the \<open>try\<close>, and the \<open>catch\<close> block pushes the text of that error.
\<close>

theorem reply_without_answer_two_messages:
  "current_session example_state =
     Some \<lparr>title = ''Chat 1'',
           messages = [greeting, \<lparr>sender = User, msg_text = Str ''What is X?''\<rparr>,
                       \<lparr>sender = Bot, msg_text = Str ''X is Y''\<rparr>]\<rparr>
   \<and> snd (handleChatSubmit_resume (Response 200 (Parsed (Obj []))) example_state) = None
   \<and> current_session (fst (handleChatSubmit_resume (Response 200 (Parsed (Obj []))) example_state))
     = Some \<lparr>title = ''Chat 1'',
             messages = [greeting, \<lparr>sender = User, msg_text = Str ''What is X?''\<rparr>,
                         \<lparr>sender = Bot, msg_text = Str ''X is Y''\<rparr>,
                         \<lparr>sender = Bot, msg_text = Undefined\<rparr>,
                         \<lparr>sender = Bot, msg_text =
                            Str (''Error: Cannot read properties of undefined (reading ''
                                 @ [CHR 0x27] @ ''replace'' @ [CHR 0x27] @ '')'')\<rparr>]\<rparr>"
  by (simp add: handleChatSubmit_resume_def catch_block_def ok_def example_state_def
      current_session_def active_property_def get_session_def Let_def push_message_def saveSessions_def)

subsection \<open>A successful exchange\<close>

text \<open>
  C1, as amended. A submission whose trimmed text is not empty, made while the active
  id is a key, appends exactly one user message with the trimmed text to the active
  session, touches no other session and issues the request. When a reply with a status
  in 200-299 and a string \<open>answer\<close> arrives while the active id is the one of the
  submission and a key, the handler completes without an exception and appends exactly
  one bot message with the answer to that session, after what the session holds by then,
  and touches no other session. When nothing else touched the session in between, it
  ends with the user message followed by the bot message.
\<close>

theorem handleChatSubmit_exchange:
  assumes "trim input \<noteq> []" and "current_session st = Some s"
    and "ok status" and "map_of fs ''answer'' = Some (Str answer)"
    and "currentSessionId st' = currentSessionId st"
    and "current_session st' = Some s'"
  shows "snd (handleChatSubmit input st) = Awaiting (trim input)
       \<and> current_session (fst (handleChatSubmit input st))
           = Some (s\<lparr>messages := messages s @ [\<lparr>sender = User, msg_text = Str (trim input)\<rparr>]\<rparr>)
       \<and> (\<forall>k. k \<noteq> key_of (currentSessionId st) \<longrightarrow>
             map_of (allSessions (fst (handleChatSubmit input st))) k = map_of (allSessions st) k)
       \<and> snd (handleChatSubmit_resume (Response status (Parsed (Obj fs))) st') = None
       \<and> currentSessionId (fst (handleChatSubmit_resume (Response status (Parsed (Obj fs))) st'))
           = currentSessionId st
       \<and> current_session (fst (handleChatSubmit_resume (Response status (Parsed (Obj fs))) st'))
           = Some (s'\<lparr>messages := messages s' @ [\<lparr>sender = Bot, msg_text = Str answer\<rparr>]\<rparr>)
       \<and> (\<forall>k. k \<noteq> key_of (currentSessionId st) \<longrightarrow>
             map_of (allSessions (fst (handleChatSubmit_resume (Response status (Parsed (Obj fs))) st'))) k
               = map_of (allSessions st') k)
       \<and> (s' = s\<lparr>messages := messages s @ [\<lparr>sender = User, msg_text = Str (trim input)\<rparr>]\<rparr> \<longrightarrow>
             current_session (fst (handleChatSubmit_resume (Response status (Parsed (Obj fs))) st'))
               = Some (s\<lparr>messages := messages s @ [\<lparr>sender = User, msg_text = Str (trim input)\<rparr>,
                                                     \<lparr>sender = Bot, msg_text = Str answer\<rparr>]\<rparr>))"
proof -
  note sub = handleChatSubmit_appends [OF assms(1,2)]
  have 1: "snd (handleChatSubmit input st) = Awaiting (trim input)"
    by (simp add: sub)
  have 2: "current_session (fst (handleChatSubmit input st))
           = Some (s\<lparr>messages := messages s @ [\<lparr>sender = User, msg_text = Str (trim input)\<rparr>]\<rparr>)"
    by (simp add: sub current_session_saved_push assms(2))
  have 3: "map_of (allSessions (fst (handleChatSubmit input st))) k = map_of (allSessions st) k"
    if "k \<noteq> key_of (currentSessionId st)" for k
    using that by (simp add: sub saved_push_lookup)
  note res = answer_resume [OF assms(3,4,6)]
  have 4: "snd (handleChatSubmit_resume (Response status (Parsed (Obj fs))) st') = None"
    by (simp add: res)
  have 5: "currentSessionId (fst (handleChatSubmit_resume (Response status (Parsed (Obj fs))) st'))
           = currentSessionId st"
    by (simp add: res currentSessionId_saved assms(5))
  have 6: "current_session (fst (handleChatSubmit_resume (Response status (Parsed (Obj fs))) st'))
           = Some (s'\<lparr>messages := messages s' @ [\<lparr>sender = Bot, msg_text = Str answer\<rparr>]\<rparr>)"
    by (simp add: res current_session_saved_push assms(6))
  have 7: "map_of (allSessions (fst (handleChatSubmit_resume (Response status (Parsed (Obj fs))) st'))) k
               = map_of (allSessions st') k"
    if "k \<noteq> key_of (currentSessionId st)" for k
    using that by (simp add: res saved_push_lookup assms(5))
  have 8: "current_session (fst (handleChatSubmit_resume (Response status (Parsed (Obj fs))) st'))
               = Some (s\<lparr>messages := messages s @ [\<lparr>sender = User, msg_text = Str (trim input)\<rparr>,
                                                     \<lparr>sender = Bot, msg_text = Str answer\<rparr>]\<rparr>)"
    if "s' = s\<lparr>messages := messages s @ [\<lparr>sender = User, msg_text = Str (trim input)\<rparr>]\<rparr>"
    using 6 that by simp
  from 1 2 3 4 5 6 7 8 show ?thesis by blast
qed

theorem handleChatSubmit_exchange_witness:
  "trim ''What is X?'' \<noteq> []
   \<and> current_session first_session_state = Some \<lparr>title = ''Chat 1'', messages = [greeting]\<rparr>
   \<and> ok 200
   \<and> currentSessionId in_flight_state = currentSessionId first_session_state
   \<and> map fst (allSessions in_flight_state) = [''session-1762054321'', ''session-1762054399'']
   \<and> current_session in_flight_state =
       Some \<lparr>title = ''Chat 1'',
             messages = [greeting, \<lparr>sender = User, msg_text = Str ''What is X?''\<rparr>]\<rparr>
   \<and> snd (handleChatSubmit ''What is X?'' first_session_state) = Awaiting ''What is X?''
   \<and> current_session (fst (handleChatSubmit_resume (Response 200 (Parsed (Obj [(''answer'', Str ''X is Y'')])))
        in_flight_state))
       = Some \<lparr>title = ''Chat 1'',
               messages = [greeting, \<lparr>sender = User, msg_text = Str ''What is X?''\<rparr>,
                           \<lparr>sender = Bot, msg_text = Str ''X is Y''\<rparr>]\<rparr>"
proof -
  have t: "trim ''What is X?'' \<noteq> []"
    by (simp add: trim_example)
  have c: "current_session first_session_state = Some \<lparr>title = ''Chat 1'', messages = [greeting]\<rparr>"
    by (simp add: first_session_state_eq current_session_def)
  have o: "ok 200"
    by (simp add: ok_def)
  have a: "map_of [(''answer'', Str ''X is Y'')] ''answer'' = Some (Str ''X is Y'')"
    by simp
  have d: "decimal 1762054399 = ''1762054399''"
    by (simp add: decimal.simps digit_char_def)
  have fl: "currentSessionId in_flight_state = Some ''session-1762054321''
     \<and> allSessions in_flight_state =
        [(''session-1762054321'',
          \<lparr>title = ''Chat 1'', messages = [greeting, \<lparr>sender = User, msg_text = Str ''What is X?''\<rparr>]\<rparr>),
         (''session-1762054399'', \<lparr>title = ''Chat 2'', messages = [greeting]\<rparr>)]"
    by (simp add: in_flight_state_def handleChatSubmit_appends [OF t c] trim_example
        first_session_state_eq push_message_def createNewSession_result saveSessions_def d decimal_digit
        digit_char_def switchSession_def Let_def loadChatHistory_def active_property_def get_session_def
        greeting_def)
  have i: "currentSessionId in_flight_state = currentSessionId first_session_state"
    by (simp add: fl first_session_state_eq)
  have s: "current_session in_flight_state =
       Some \<lparr>title = ''Chat 1'',
             messages = [greeting, \<lparr>sender = User, msg_text = Str ''What is X?''\<rparr>]\<rparr>"
    by (simp add: current_session_def fl)
  from handleChatSubmit_exchange [OF t c o a i s] t c o i s fl show ?thesis
    by (simp add: trim_example)
qed

text \<open>As the claim is stated: after a switch to the second session while the request is
  in flight, the answer lands in the second session, and the first one keeps the
  question without it.\<close>

theorem switch_in_flight_counterexample:
  "currentSessionId example_state = Some ''session-1''
   \<and> snd (handleChatSubmit ''hi'' example_state) = Awaiting ''hi''
   \<and> map_of (allSessions (fst (handleChatSubmit_resume (Response 200 (Parsed (Obj [(''answer'', Str ''yo'')])))
        (fst (switchSession ''session-2'' (fst (handleChatSubmit ''hi'' example_state))))))) ''session-1''
       = Some \<lparr>title = ''Chat 1'',
               messages = [greeting, \<lparr>sender = User, msg_text = Str ''What is X?''\<rparr>,
                           \<lparr>sender = Bot, msg_text = Str ''X is Y''\<rparr>,
                           \<lparr>sender = User, msg_text = Str ''hi''\<rparr>]\<rparr>
   \<and> map_of (allSessions (fst (handleChatSubmit_resume (Response 200 (Parsed (Obj [(''answer'', Str ''yo'')])))
        (fst (switchSession ''session-2'' (fst (handleChatSubmit ''hi'' example_state))))))) ''session-2''
       = Some \<lparr>title = ''Chat 2'',
               messages = [greeting, \<lparr>sender = Bot, msg_text = Str ''yo''\<rparr>]\<rparr>"
proof -
  have t: "trim ''hi'' = ''hi''"
    by (simp add: trim_def is_ws_def)
  show ?thesis
    by (simp add: handleChatSubmit_def handleChatSubmit_resume_def t ok_def example_state_def
        current_session_def active_property_def get_session_def Let_def push_message_def
        saveSessions_def switchSession_def loadChatHistory_def greeting_def)
qed

end
